theory Spec2Isabelle
  imports Complex_Main "HOL-Library.Multiset"
begin

section \<open>Spectral feature extraction: the notebook's three functions\<close>

text \<open>
  The notebook defines \<open>extract_stft_features\<close>, \<open>extract_wavelet_features\<close> and
  (twice) \<open>apply_feature_extraction\<close>. What the notebook itself contributes is the
  dispatch on statistic names, the fallback to a default list of names, the order of
  concatenation and the loop over data-frame columns; the numbers come from NumPy, SciPy,
  librosa and PyWavelets, which are not part of the repository.

  The embedding therefore keeps the array \<^emph>\<open>shapes\<close> and the control flow concrete and
  takes every floating-point computation as a parameter: a record of numeric kernels
  over an arbitrary value type \<open>'v\<close>. Nothing is assumed about the kernels, so each
  theorem holds for IEEE doubles with their NaNs and infinities as for any other
  arithmetic. Only the claim about finite values gives the numbers a meaning; that
  arithmetic is the last part of the definitions. The first body line of both extractors carries four surplus blanks in the
  stored cell (lines 105 and 157); it is read as the first statement of the body.
\<close>

subsection \<open>Exceptions as values\<close>

text \<open>
  The exceptions that can reach the caller, named by their cause. In Python they are:
  \<open>ValueError\<close> for \<open>NoverlapNotBelowNperseg\<close> (SciPy), \<open>ConcatenateEmptyList\<close> and
  \<open>ZeroSizeReduction\<close> (NumPy), \<open>UnknownWavelet\<close>, \<open>InvalidFilterLength\<close>,
  \<open>NegativeLevel\<close> and \<open>EmptyTransformInput\<close> (PyWavelets); \<open>AxisError\<close> for
  \<open>AxisOutOfBounds\<close> (NumPy, \<open>axis=1\<close> on a one-dimensional array); \<open>IndexError\<close> for
  \<open>IndexOutOfRange\<close>.
\<close>

datatype error =
    NoverlapNotBelowNperseg
  | ConcatenateEmptyList
  | ZeroSizeReduction
  | AxisOutOfBounds
  | IndexOutOfRange
  | UnknownWavelet
  | InvalidFilterLength
  | NegativeLevel
  | EmptyTransformInput

type_synonym 'a result = "error + 'a"

text \<open>A list comprehension whose element expressions may raise: the first raise wins.\<close>

fun collect :: "'a result list \<Rightarrow> 'a list result" where
  "collect [] = Inr []"
| "collect (r # rs) =
     (case r of
        Inl e \<Rightarrow> Inl e
      | Inr x \<Rightarrow> (case collect rs of Inl e \<Rightarrow> Inl e | Inr xs \<Rightarrow> Inr (x # xs)))"

subsection \<open>Numeric kernels of the libraries\<close>

record 'v kernels =
  stft_mag :: "'v list \<Rightarrow> nat \<Rightarrow> nat \<Rightarrow> 'v"
  librosa_val :: "string \<Rightarrow> 'v list list \<Rightarrow> nat \<Rightarrow> nat \<Rightarrow> 'v"
  dec_len :: "string \<Rightarrow> nat option"
  dwt_cA :: "string \<Rightarrow> 'v list \<Rightarrow> nat \<Rightarrow> 'v"
  dwt_cD :: "string \<Rightarrow> 'v list \<Rightarrow> nat \<Rightarrow> 'v"
  np_mean :: "'v list \<Rightarrow> 'v"
  np_std :: "'v list \<Rightarrow> 'v"
  np_median :: "'v list \<Rightarrow> 'v"
  np_amax :: "'v list \<Rightarrow> 'v"
  np_amin :: "'v list \<Rightarrow> 'v"
  np_sum :: "'v list \<Rightarrow> 'v"
  np_square :: "'v \<Rightarrow> 'v"
  np_abs :: "'v \<Rightarrow> 'v"
  np_sqrt :: "'v \<Rightarrow> 'v"
  f_sub :: "'v \<Rightarrow> 'v \<Rightarrow> 'v"
  f_add :: "'v \<Rightarrow> 'v \<Rightarrow> 'v"
  f_div :: "'v \<Rightarrow> 'v \<Rightarrow> 'v"
  eps :: "'v"

text \<open>
  \<open>stft_mag K x k t\<close> is \<open>|Zxx[k, t]|\<close> for the signal \<open>x\<close>; \<open>librosa_val K name S r t\<close>
  is entry \<open>(r, t)\<close> of the librosa feature \<open>name\<close> of the spectrogram \<open>S\<close>;
  \<open>dec_len K w\<close> is the decomposition filter length of the wavelet named \<open>w\<close> (\<open>None\<close>
  for a name PyWavelets does not know); \<open>dwt_cA\<close> and \<open>dwt_cD\<close> give the entries of the
  approximation and detail coefficients of one transform step; the rest are NumPy's
  reductions, element-wise functions and float arithmetic; \<open>eps\<close> is \<open>1e-10\<close>.
  Float division by zero does not raise in NumPy, so \<open>f_div\<close> is total.
  A signal is a list of such values: NumPy converts the integers of \<open>data\<close> on entry,
  and the cells of a data frame hold signals and feature vectors alike.
\<close>

subsection \<open>\<open>scipy.signal.stft\<close> and the spectrogram\<close>

text \<open>
  The result of \<open>np.abs(Zxx)\<close>. For an empty input SciPy returns empty one-dimensional
  arrays; otherwise a matrix of frequency bins (rows) by time frames (columns).
\<close>

datatype 'v spectrogram = Empty1D | Matrix "'v list list"

text \<open>
  Shape of \<open>scipy.signal.stft(data, fs=1000, window='hann', nperseg=256, noverlap=128)\<close>
  with the defaults \<open>boundary='zeros'\<close>, \<open>padded=True\<close>, as the library documents it:
  a window longer than the input is shortened to the input length (with a warning);
  an overlap not below the window length raises; the input is extended by
  half a window of zeros on both sides and padded to a whole number of hops; the
  one-sided spectrum has \<open>nperseg div 2 + 1\<close> bins.
\<close>

definition stft_nperseg :: "nat \<Rightarrow> nat" where
  "stft_nperseg n = min 256 n"

definition stft_bins :: "nat \<Rightarrow> nat" where
  "stft_bins n = stft_nperseg n div 2 + 1"

definition stft_frames :: "nat \<Rightarrow> nat" where
  "stft_frames n =
     (let nperseg = stft_nperseg n;
          nstep = nperseg - 128;
          ext = n + 2 * (nperseg div 2);
          nadd = ((nstep - (ext - nperseg) mod nstep) mod nstep) mod nperseg
      in (ext + nadd - 128) div nstep)"

definition scipy_signal_stft :: "'v kernels \<Rightarrow> 'v list \<Rightarrow> 'v spectrogram result" where
  "scipy_signal_stft K x =
     (let n = length x in
      if n = 0 then Inr Empty1D
      else if 128 \<ge> stft_nperseg n then Inl NoverlapNotBelowNperseg
      else Inr (Matrix (map (\<lambda>k. map (\<lambda>t. stft_mag K x k t) [0..<stft_frames n])
                            [0..<stft_bins n])))"

subsection \<open>The STFT statistics\<close>

text \<open>\<open>np.mean(S, axis=1)\<close> and \<open>np.std(S, axis=1)\<close>: one value per row.\<close>

definition reduce_axis1 :: "('v list \<Rightarrow> 'v) \<Rightarrow> 'v spectrogram \<Rightarrow> 'v list result" where
  "reduce_axis1 f S =
     (case S of Empty1D \<Rightarrow> Inl AxisOutOfBounds | Matrix rows \<Rightarrow> Inr (map f rows))"

definition n_frames :: "'v list list \<Rightarrow> nat" where
  "n_frames rows = (case rows of [] \<Rightarrow> 0 | r # _ \<Rightarrow> length r)"

text \<open>
  The librosa features are computed per time frame: centroid, bandwidth, flatness and
  rolloff have one row, \<open>spectral_contrast\<close> has \<open>n_bands + 1 = 7\<close>, \<open>chroma_stft\<close> has
  12 and \<open>mfcc\<close> has at most 20; every row has one entry per frame.
\<close>

definition librosa_rows :: "string \<Rightarrow> nat \<Rightarrow> nat" where
  "librosa_rows name bins =
     (if name = ''spectral_contrast'' then 7
      else if name = ''chroma_stft'' then 12
      else if name = ''mfcc'' then min 20 bins
      else 1)"

definition librosa_feature :: "'v kernels \<Rightarrow> string \<Rightarrow> 'v spectrogram \<Rightarrow> 'v list list result" where
  "librosa_feature K name S =
     (case S of
        Empty1D \<Rightarrow> Inl IndexOutOfRange
      | Matrix rows \<Rightarrow>
          Inr (map (\<lambda>r. map (\<lambda>t. librosa_val K name rows r t) [0..<n_frames rows])
                   [0..<librosa_rows name (length rows)]))"

text \<open>The subscript \<open>[0]\<close> on a feature matrix.\<close>

definition first_row :: "'v list list result \<Rightarrow> 'v list result" where
  "first_row r =
     (case r of Inl e \<Rightarrow> Inl e | Inr [] \<Rightarrow> Inl IndexOutOfRange | Inr (x # _) \<Rightarrow> Inr x)"

text \<open>
  The dictionary \<open>feature_map\<close> of \<open>extract_stft_features\<close>, in insertion order. Each
  value is the outcome of calling the stored lambda.
\<close>

definition stft_feature_map :: "'v kernels \<Rightarrow> 'v spectrogram \<Rightarrow> (string \<times> 'v list result) list" where
  "stft_feature_map K S =
     [(''mean'', reduce_axis1 (np_mean K) S),
      (''std'', reduce_axis1 (np_std K) S),
      (''spectral_centroid'', first_row (librosa_feature K ''spectral_centroid'' S)),
      (''spectral_bandwidth'', first_row (librosa_feature K ''spectral_bandwidth'' S)),
      (''spectral_contrast'', first_row (librosa_feature K ''spectral_contrast'' S)),
      (''spectral_flatness'', first_row (librosa_feature K ''spectral_flatness'' S)),
      (''spectral_rolloff'', first_row (librosa_feature K ''spectral_rolloff'' S)),
      (''chroma_stft'', first_row (librosa_feature K ''chroma_stft'' S)),
      (''mfcc'', first_row (librosa_feature K ''mfcc'' S))]"

definition stft_default_features :: "string list" where
  "stft_default_features =
     [''mean'', ''std'', ''spectral_centroid'', ''spectral_bandwidth'',
      ''spectral_contrast'', ''spectral_flatness'', ''spectral_rolloff'',
      ''chroma_stft'', ''mfcc'']"

text \<open>\<open>if not features_to_extract\<close>: \<open>None\<close> and the empty list both select the default.\<close>

definition features_or_default :: "string list \<Rightarrow> string list option \<Rightarrow> string list" where
  "features_or_default dflt fte =
     (case fte of None \<Rightarrow> dflt | Some [] \<Rightarrow> dflt | Some (f # fs) \<Rightarrow> f # fs)"

text \<open>\<open>np.concatenate\<close> of a list of one-dimensional arrays; it raises on the empty list.\<close>

definition np_concatenate :: "'v list list \<Rightarrow> 'v list result" where
  "np_concatenate arrays = (if arrays = [] then Inl ConcatenateEmptyList else Inr (concat arrays))"

text \<open>Line 121: the features computed for the names that are keys of the dictionary.\<close>

definition stft_computed_features :: "'v kernels \<Rightarrow> 'v spectrogram \<Rightarrow> string list \<Rightarrow> 'v list list result" where
  "stft_computed_features K S fte =
     collect (List.map_filter (map_of (stft_feature_map K S)) fte)"

definition extract_stft_features :: "'v kernels \<Rightarrow> 'v list \<Rightarrow> string list option \<Rightarrow> 'v list result" where
  "extract_stft_features K data features_to_extract =
     (case scipy_signal_stft K data of
        Inl e \<Rightarrow> Inl e
      | Inr mag_spectrogram \<Rightarrow>
          (let fte = features_or_default stft_default_features features_to_extract in
           case stft_computed_features K mag_spectrogram fte of
             Inl e \<Rightarrow> Inl e
           | Inr computed_features \<Rightarrow> np_concatenate computed_features))"

subsection \<open>\<open>pywt.wavedec\<close>\<close>

text \<open>
  One transform step \<open>pywt.dwt\<close> in the default \<open>symmetric\<close> mode: both coefficient
  arrays have \<open>(n + dec_len - 1) div 2\<close> entries; an empty input and an unknown wavelet
  name raise.
\<close>

definition pywt_dwt :: "'v kernels \<Rightarrow> string \<Rightarrow> 'v list \<Rightarrow> ('v list \<times> 'v list) result" where
  "pywt_dwt K wavelet a =
     (case dec_len K wavelet of
        None \<Rightarrow> Inl UnknownWavelet
      | Some flen \<Rightarrow>
          if a = [] then Inl EmptyTransformInput
          else (let m = (length a + flen - 1) div 2
                in Inr (map (dwt_cA K wavelet a) [0..<m], map (dwt_cD K wavelet a) [0..<m])))"

text \<open>
  The loop of \<open>wavedec\<close> (PyWavelets 1.x): \<open>level\<close> steps, each splitting the current
  approximation; the details are appended as they come, the last approximation is
  appended and the list is reversed. The accumulator below holds the reversed list.
  A level above \<open>dwt_max_level\<close> only issues a warning; a negative level raises, and so
  does a filter shorter than two taps (in \<open>dwt_max_level\<close>).
\<close>

fun wavedec_loop :: "'v kernels \<Rightarrow> string \<Rightarrow> nat \<Rightarrow> 'v list \<Rightarrow> 'v list list \<Rightarrow> 'v list list result" where
  "wavedec_loop K wavelet 0 a ds = Inr (a # ds)"
| "wavedec_loop K wavelet (Suc n) a ds =
     (case pywt_dwt K wavelet a of
        Inl e \<Rightarrow> Inl e
      | Inr (a', d) \<Rightarrow> wavedec_loop K wavelet n a' (d # ds))"

definition pywt_wavedec :: "'v kernels \<Rightarrow> 'v list \<Rightarrow> string \<Rightarrow> int \<Rightarrow> 'v list list result" where
  "pywt_wavedec K data wavelet level =
     (case dec_len K wavelet of
        None \<Rightarrow> Inl UnknownWavelet
      | Some flen \<Rightarrow>
          if flen < 2 then Inl InvalidFilterLength
          else if level < 0 then Inl NegativeLevel
          else wavedec_loop K wavelet (nat level) data [])"

subsection \<open>The wavelet statistics\<close>

text \<open>\<open>np.max\<close> and \<open>np.min\<close> raise on an array without entries; the means do not.\<close>

definition np_max :: "'v kernels \<Rightarrow> 'v list \<Rightarrow> 'v result" where
  "np_max K x = (if x = [] then Inl ZeroSizeReduction else Inr (np_amax K x))"

definition np_min :: "'v kernels \<Rightarrow> 'v list \<Rightarrow> 'v result" where
  "np_min K x = (if x = [] then Inl ZeroSizeReduction else Inr (np_amin K x))"

definition rms :: "'v kernels \<Rightarrow> 'v list \<Rightarrow> 'v" where
  "rms K x = np_sqrt K (np_mean K (map (np_square K) x))"

definition wavelet_feature_map :: "'v kernels \<Rightarrow> (string \<times> ('v list \<Rightarrow> 'v result)) list" where
  "wavelet_feature_map K =
     [(''mean'', \<lambda>x. Inr (np_mean K x)),
      (''std'', \<lambda>x. Inr (np_std K x)),
      (''median'', \<lambda>x. Inr (np_median K x)),
      (''max'', \<lambda>x. np_max K x),
      (''min'', \<lambda>x. np_min K x),
      (''range'', \<lambda>x.
         (case np_max K x of
            Inl e \<Rightarrow> Inl e
          | Inr hi \<Rightarrow> (case np_min K x of Inl e \<Rightarrow> Inl e | Inr lo \<Rightarrow> Inr (f_sub K hi lo)))),
      (''energy'', \<lambda>x. Inr (np_sum K (map (np_square K) x))),
      (''crest_factor'', \<lambda>x.
         (case np_max K (map (np_abs K) x) of
            Inl e \<Rightarrow> Inl e
          | Inr peak \<Rightarrow> Inr (f_div K peak (f_add K (rms K x) (eps K))))),
      (''shape_factor'', \<lambda>x.
         Inr (f_div K (rms K x) (f_add K (np_mean K (map (np_abs K) x)) (eps K))))]"

text \<open>Line 179: the statistics of one coefficient array, in the order of the names.\<close>

definition level_features :: "'v kernels \<Rightarrow> string list \<Rightarrow> 'v list \<Rightarrow> 'v list result" where
  "level_features K fte coeff =
     collect (List.map_filter
                (\<lambda>feat. map_option (\<lambda>f. f coeff) (map_of (wavelet_feature_map K) feat)) fte)"

text \<open>Lines 177 to 179: the loop over the coefficient arrays, extending the list.\<close>

fun features_loop :: "'v kernels \<Rightarrow> string list \<Rightarrow> 'v list list \<Rightarrow> 'v list \<Rightarrow> 'v list result" where
  "features_loop K fte [] computed_features = Inr computed_features"
| "features_loop K fte (coeff # coeffs) computed_features =
     (case level_features K fte coeff of
        Inl e \<Rightarrow> Inl e
      | Inr fs \<Rightarrow> features_loop K fte coeffs (computed_features @ fs))"

definition extract_wavelet_features ::
  "'v kernels \<Rightarrow> 'v list \<Rightarrow> string list option \<Rightarrow> string \<Rightarrow> int \<Rightarrow> 'v list result" where
  "extract_wavelet_features K data features_to_extract wavelet level =
     (case pywt_wavedec K data wavelet level of
        Inl e \<Rightarrow> Inl e
      | Inr coeffs \<Rightarrow>
          (let fte = features_or_default (map fst (wavelet_feature_map K)) features_to_extract
           in features_loop K fte coeffs []))"

subsection \<open>The data frame and \<open>apply_feature_extraction\<close>\<close>

text \<open>
  A data frame as its columns in order, each a name with one cell per row; a cell is a
  sequence of numbers. \<open>df[name] = cells\<close> replaces the column of that name where it
  stands, or appends a new column at the end.
\<close>

type_synonym 'v frame = "(string \<times> 'v list list) list"

definition columns :: "'v frame \<Rightarrow> string list" where
  "columns df = map fst df"

definition get_column :: "'v frame \<Rightarrow> string \<Rightarrow> 'v list list" where
  "get_column df name = (case map_of df name of None \<Rightarrow> [] | Some cells \<Rightarrow> cells)"

fun set_column :: "'v frame \<Rightarrow> string \<Rightarrow> 'v list list \<Rightarrow> 'v frame" where
  "set_column [] name cells = [(name, cells)]"
| "set_column ((n, c) # df) name cells =
     (if n = name then (n, cells) # df else (n, c) # set_column df name cells)"

text \<open>
  \<open>series.apply(f).apply(list)\<close>: \<open>f\<close> on every cell in row order; the first raise
  aborts. Arrays are lists in this model, so \<open>list\<close> changes nothing.
\<close>

definition series_apply :: "('v list \<Rightarrow> 'v list result) \<Rightarrow> 'v list list \<Rightarrow> 'v list list result" where
  "series_apply f cells = collect (map f cells)"

text \<open>
  The loop body for one column name, and the loop. The frame is mutated in place, so a
  raise leaves the caller with the frame as far as it got: the result is the frame
  together with the pending exception, if any.
\<close>

fun apply_feature_extraction_plain ::
  "'v kernels \<Rightarrow> 'v frame \<Rightarrow> string list \<Rightarrow> 'v frame \<times> error option" where
  "apply_feature_extraction_plain K df [] = (df, None)"
| "apply_feature_extraction_plain K df (col # cols) =
     (if col \<in> set (columns df) then
        (case series_apply (\<lambda>x. extract_stft_features K x None) (get_column df col) of
           Inl e \<Rightarrow> (df, Some e)
         | Inr s \<Rightarrow>
             (let df1 = set_column df (''stft_'' @ col) s in
              case series_apply (\<lambda>x. extract_wavelet_features K x None ''coif6'' 4)
                     (get_column df1 col) of
                Inl e \<Rightarrow> (df1, Some e)
              | Inr w \<Rightarrow>
                  apply_feature_extraction_plain K (set_column df1 (''dwt_'' @ col) w) cols))
      else apply_feature_extraction_plain K df cols)"

fun apply_feature_extraction ::
  "'v kernels \<Rightarrow> 'v frame \<Rightarrow> string list \<Rightarrow> 'v frame \<times> error option" where
  "apply_feature_extraction K df [] = (df, None)"
| "apply_feature_extraction K df (col # cols) =
     (if col \<in> set (columns df) then
        (case series_apply (\<lambda>x. extract_stft_features K x None) (get_column df col) of
           Inl e \<Rightarrow> (df, Some e)
         | Inr s \<Rightarrow>
             (let df1 = set_column df (''stft_'' @ col) s in
              case series_apply (\<lambda>x. extract_wavelet_features K x None ''coif6'' 4)
                     (get_column df1 col) of
                Inl e \<Rightarrow> (df1, Some e)
              | Inr w \<Rightarrow>
                  apply_feature_extraction K (set_column df1 (''dwt_'' @ col) w) cols))
      else apply_feature_extraction K df cols)"

subsection \<open>Names for what the theorems speak about\<close>

text \<open>The segment a statistic name contributes to the STFT vector: the value its lambda returns.\<close>

definition stft_segment :: "'v kernels \<Rightarrow> 'v spectrogram \<Rightarrow> string \<Rightarrow> 'v list" where
  "stft_segment K S feat = projr (the (map_of (stft_feature_map K S) feat))"

text \<open>The spectrogram of a signal for which the transform returns.\<close>

definition mag_spectrogram :: "'v kernels \<Rightarrow> 'v list \<Rightarrow> 'v spectrogram" where
  "mag_spectrogram K data = projr (scipy_signal_stft K data)"

text \<open>The scalar a statistic name contributes for one coefficient array.\<close>

definition wavelet_stat :: "'v kernels \<Rightarrow> string \<Rightarrow> 'v list \<Rightarrow> 'v" where
  "wavelet_stat K feat coeff = projr (the (map_of (wavelet_feature_map K) feat) coeff)"

text \<open>
  The decomposition in the words of the specification: the approximation after \<open>i\<close>
  steps, the detail produced by step \<open>i + 1\<close>, and the list from the coarsest
  approximation to the finest detail.
\<close>

fun approximation :: "'v kernels \<Rightarrow> string \<Rightarrow> 'v list \<Rightarrow> nat \<Rightarrow> 'v list" where
  "approximation K wavelet data 0 = data"
| "approximation K wavelet data (Suc i) =
     (let a = approximation K wavelet data i
      in map (dwt_cA K wavelet a) [0..<(length a + the (dec_len K wavelet) - 1) div 2])"

definition detail :: "'v kernels \<Rightarrow> string \<Rightarrow> 'v list \<Rightarrow> nat \<Rightarrow> 'v list" where
  "detail K wavelet data i =
     (let a = approximation K wavelet data i
      in map (dwt_cD K wavelet a) [0..<(length a + the (dec_len K wavelet) - 1) div 2])"

definition coarse_to_fine :: "'v kernels \<Rightarrow> string \<Rightarrow> 'v list \<Rightarrow> nat \<Rightarrow> 'v list list" where
  "coarse_to_fine K wavelet data L =
     approximation K wavelet data L # map (detail K wavelet data) (rev [0..<L])"

text \<open>The names the two dictionaries know.\<close>

definition stft_names :: "string set" where
  "stft_names = set stft_default_features"

definition wavelet_names :: "string list" where
  "wavelet_names =
     [''mean'', ''std'', ''median'', ''max'', ''min'', ''range'', ''energy'',
      ''crest_factor'', ''shape_factor'']"

text \<open>The column names the loop writes for a list of requested names.\<close>

definition derived_names :: "string list \<Rightarrow> string set" where
  "derived_names cols = (\<Union>c \<in> set cols. {''stft_'' @ c, ''dwt_'' @ c})"

text \<open>
  A concrete set of kernels over the integers, for evaluating the definitions at
  concrete inputs. The numbers it produces are stand-ins; the theorems hold for every
  choice of kernels.
\<close>

definition sample_kernels :: "int kernels" where
  "sample_kernels =
     \<lparr> stft_mag = (\<lambda>x k t. int k + int t),
       librosa_val = (\<lambda>name S r t. int r + int t),
       dec_len = (\<lambda>w. if w = ''coif6'' then Some 36 else if w = ''haar'' then Some 2 else None),
       dwt_cA = (\<lambda>w a i. a ! (i mod length a)),
       dwt_cD = (\<lambda>w a i. 0),
       np_mean = (\<lambda>xs. sum_list xs div int (length xs)),
       np_std = (\<lambda>xs. 0),
       np_median = (\<lambda>xs. sort xs ! (length xs div 2)),
       np_amax = (\<lambda>xs. fold max xs (hd xs)),
       np_amin = (\<lambda>xs. fold min xs (hd xs)),
       np_sum = sum_list,
       np_square = (\<lambda>v. v * v),
       np_abs = abs,
       np_sqrt = (\<lambda>v. v),
       f_sub = (\<lambda>a b. a - b),
       f_add = (\<lambda>a b. a + b),
       f_div = (\<lambda>a b. a div b),
       eps = 1 \<rparr>"

subsection \<open>Doubles, as far as finiteness goes\<close>




























section \<open>Auxiliary facts\<close>

text \<open>
  Shapes first: what the two library transforms return, then what each dictionary
  returns for a name, then the two extractors as closed formulas.
\<close>

lemma collect_map_Inr: "collect (map Inr xs) = Inr xs"
  by (induction xs) simp_all

lemma stft_shape:
  assumes "128 < length x"
  shows "\<exists>M. scipy_signal_stft K x = Inr (Matrix M) \<and> length M = stft_bins (length x)
           \<and> n_frames M = stft_frames (length x)"
proof -
  let ?n = "length x"
  let ?M = "map (\<lambda>k. map (\<lambda>t. stft_mag K x k t) [0..<stft_frames ?n]) [0..<stft_bins ?n]"
  from assms have np: "128 < stft_nperseg ?n" by (simp add: stft_nperseg_def)
  then have st: "scipy_signal_stft K x = Inr (Matrix ?M)"
    using assms by (auto simp: scipy_signal_stft_def Let_def)
  have "0 < stft_bins ?n" by (simp add: stft_bins_def)
  then have "n_frames ?M = stft_frames ?n"
    by (simp add: n_frames_def upt_conv_Cons)
  with st show ?thesis by auto
qed

lemma stft_bins_long: "256 \<le> n \<Longrightarrow> stft_bins n = 129"
  by (simp add: stft_bins_def stft_nperseg_def)

lemma librosa_first_row:
  assumes "M \<noteq> []"
  shows "first_row (librosa_feature K name (Matrix M))
           = Inr (map (\<lambda>t. librosa_val K name M 0 t) [0..<n_frames M])"
proof -
  from assms have "0 < librosa_rows name (length M)"
    by (simp add: librosa_rows_def)
  then show ?thesis
    by (simp add: first_row_def librosa_feature_def upt_conv_Cons)
qed

lemma stft_lookup_known:
  assumes "M \<noteq> []" and "feat \<in> stft_names"
  shows "map_of (stft_feature_map K (Matrix M)) feat = Some (Inr (stft_segment K (Matrix M) feat))
         \<and> length (stft_segment K (Matrix M) feat)
             = (if feat = ''mean'' \<or> feat = ''std'' then length M else n_frames M)"
  using assms
  by (auto simp: stft_names_def stft_default_features_def stft_segment_def stft_feature_map_def
        librosa_first_row reduce_axis1_def)

lemma stft_lookup_unknown:
  assumes "feat \<notin> stft_names"
  shows "map_of (stft_feature_map K S) feat = None"
  using assms
  by (simp add: stft_names_def stft_default_features_def stft_feature_map_def)

lemma stft_computed_filter:
  assumes "M \<noteq> []"
  shows "stft_computed_features K (Matrix M) fte
           = Inr (map (stft_segment K (Matrix M)) (filter (\<lambda>f. f \<in> stft_names) fte))"
proof (induction fte)
  case Nil
  then show ?case by (simp add: stft_computed_features_def)
next
  case (Cons f fte)
  show ?case
  proof (cases "f \<in> stft_names")
    case True
    with stft_lookup_known [OF assms True, of K] Cons show ?thesis
      by (simp add: stft_computed_features_def)
  next
    case False
    with stft_lookup_unknown [OF False, of K "Matrix M"] Cons show ?thesis
      by (simp add: stft_computed_features_def)
  qed
qed

lemma pywt_dwt_ok:
  assumes "dec_len K w = Some flen" and "a \<noteq> []"
  shows "pywt_dwt K w a = Inr (approximation K w a (Suc 0), detail K w a 0)"
  using assms by (simp add: pywt_dwt_def detail_def Let_def)

lemma approximation_shift:
  "approximation K w (approximation K w a (Suc 0)) i = approximation K w a (Suc i)"
  by (induction i) (simp_all add: Let_def)

lemma detail_shift:
  "detail K w (approximation K w a (Suc 0)) i = detail K w a (Suc i)"
  unfolding detail_def approximation_shift ..

lemma coeff_len_pos: "0 < (n::nat) \<Longrightarrow> 2 \<le> f \<Longrightarrow> 0 < (n + f - 1) div 2"
  by arith

lemma approximation_nonempty:
  assumes "dec_len K w = Some flen" and "2 \<le> flen" and "a \<noteq> []"
  shows "approximation K w a i \<noteq> []"
proof (induction i)
  case 0
  from assms(3) show ?case by simp
next
  case (Suc i)
  then have "0 < length (approximation K w a i)" by simp
  from this assms(2) have "0 < (length (approximation K w a i) + flen - 1) div 2"
    by (rule coeff_len_pos)
  with assms(1) show ?case by (simp add: Let_def)
qed

lemma detail_nonempty:
  assumes "dec_len K w = Some flen" and "2 \<le> flen" and "a \<noteq> []"
  shows "detail K w a i \<noteq> []"
proof -
  from approximation_nonempty [OF assms, of i]
  have "0 < length (approximation K w a i)" by simp
  from this assms(2) have "0 < (length (approximation K w a i) + flen - 1) div 2"
    by (rule coeff_len_pos)
  with assms(1) show ?thesis by (simp add: detail_def Let_def)
qed

lemma rev_upt_Suc_shift: "map f (rev [0..<Suc n]) = map (\<lambda>i. f (Suc i)) (rev [0..<n]) @ [f 0]"
proof -
  have "[0..<Suc n] = 0 # map Suc [0..<n]"
    by (simp add: upt_conv_Cons map_Suc_upt del: upt_Suc)
  then show ?thesis by (simp add: rev_map comp_def del: upt_Suc)
qed

lemma wavedec_loop_ok:
  assumes "dec_len K w = Some flen" and "2 \<le> flen"
  shows "a \<noteq> [] \<Longrightarrow> wavedec_loop K w n a ds = Inr (coarse_to_fine K w a n @ ds)"
proof (induction n arbitrary: a ds)
  case 0
  then show ?case by (simp add: coarse_to_fine_def)
next
  case (Suc n)
  have ne: "approximation K w a (Suc 0) \<noteq> []"
    by (rule approximation_nonempty [OF assms Suc.prems])
  have "wavedec_loop K w (Suc n) a ds
          = wavedec_loop K w n (approximation K w a (Suc 0)) (detail K w a 0 # ds)"
    using pywt_dwt_ok [OF assms(1) Suc.prems] by simp
  also have "\<dots> = Inr (coarse_to_fine K w (approximation K w a (Suc 0)) n @ detail K w a 0 # ds)"
    by (rule Suc.IH [OF ne])
  also have "coarse_to_fine K w (approximation K w a (Suc 0)) n @ detail K w a 0 # ds
               = coarse_to_fine K w a (Suc n) @ ds"
    unfolding coarse_to_fine_def
    by (simp add: approximation_shift detail_shift rev_upt_Suc_shift [of "detail K w a" n]
          del: upt_Suc approximation.simps)
  finally show ?case .
qed

lemma pywt_wavedec_ok:
  assumes "dec_len K w = Some flen" and "2 \<le> flen" and "data \<noteq> []" and "0 \<le> level"
  shows "pywt_wavedec K data w level = Inr (coarse_to_fine K w data (nat level))"
  using assms wavedec_loop_ok [OF assms(1,2,3), of "nat level" "[]"]
  by (simp add: pywt_wavedec_def)

lemma coarse_to_fine_length: "length (coarse_to_fine K w data L) = L + 1"
  by (simp add: coarse_to_fine_def)

lemma coarse_to_fine_nonempty:
  assumes "dec_len K w = Some flen" and "2 \<le> flen" and "data \<noteq> []"
  shows "\<forall>c \<in> set (coarse_to_fine K w data L). c \<noteq> []"
  using approximation_nonempty [OF assms] detail_nonempty [OF assms]
  by (auto simp: coarse_to_fine_def)

lemma wavelet_feature_map_keys: "map fst (wavelet_feature_map K) = wavelet_names"
  by (simp add: wavelet_feature_map_def wavelet_names_def)

lemma wavelet_lookup_unknown:
  "feat \<notin> set wavelet_names \<Longrightarrow> map_of (wavelet_feature_map K) feat = None"
  by (simp add: wavelet_feature_map_def wavelet_names_def)

lemma wavelet_lookup_known:
  assumes "feat \<in> set wavelet_names" and "coeff \<noteq> []"
  shows "\<exists>f. map_of (wavelet_feature_map K) feat = Some f
           \<and> f coeff = Inr (wavelet_stat K feat coeff)"
  using assms
  by (auto simp: wavelet_names_def wavelet_stat_def wavelet_feature_map_def np_max_def np_min_def)

lemma level_features_ok:
  assumes "coeff \<noteq> []"
  shows "level_features K fte coeff
           = Inr (map (\<lambda>feat. wavelet_stat K feat coeff)
                      (filter (\<lambda>f. f \<in> set wavelet_names) fte))"
proof (induction fte)
  case Nil
  then show ?case by (simp add: level_features_def)
next
  case (Cons f fte)
  show ?case
  proof (cases "f \<in> set wavelet_names")
    case True
    from wavelet_lookup_known [OF True assms, of K] obtain g
      where "map_of (wavelet_feature_map K) f = Some g"
        and "g coeff = Inr (wavelet_stat K f coeff)" by blast
    with True Cons show ?thesis
      by (simp add: level_features_def)
  next
    case False
    with wavelet_lookup_unknown [OF False, of K] Cons show ?thesis
      by (simp add: level_features_def)
  qed
qed

lemma features_loop_ok:
  assumes "\<forall>c \<in> set coeffs. c \<noteq> []"
  shows "features_loop K fte coeffs acc
           = Inr (acc @ concat (map (\<lambda>c. map (\<lambda>feat. wavelet_stat K feat c)
                                          (filter (\<lambda>f. f \<in> set wavelet_names) fte)) coeffs))"
  using assms
  by (induction coeffs arbitrary: acc) (simp_all add: level_features_ok)

lemma length_concat_const:
  "(\<forall>x \<in> set xs. length (f x) = k) \<Longrightarrow> length (concat (map f xs)) = length xs * k"
  by (induction xs) simp_all

lemma extract_wavelet_features_ok:
  assumes "dec_len K w = Some flen" and "2 \<le> flen" and "data \<noteq> []" and "0 \<le> level"
  shows "extract_wavelet_features K data spec w level
           = Inr (concat (map (\<lambda>c. map (\<lambda>feat. wavelet_stat K feat c)
                    (filter (\<lambda>f. f \<in> set wavelet_names) (features_or_default wavelet_names spec)))
                    (coarse_to_fine K w data (nat level))))"
  using pywt_wavedec_ok [OF assms]
    features_loop_ok [OF coarse_to_fine_nonempty [OF assms(1,2,3)]]
  by (simp add: extract_wavelet_features_def wavelet_feature_map_keys)

lemma features_or_default_Some: "fs \<noteq> [] \<Longrightarrow> features_or_default d (Some fs) = fs"
  by (cases fs) (simp_all add: features_or_default_def)

lemma features_or_default_empty:
  "features_or_default d None = d" "features_or_default d (Some []) = d"
  by (simp_all add: features_or_default_def)

lemma filter_known: "set fs \<subseteq> A \<Longrightarrow> filter (\<lambda>f. f \<in> A) fs = fs"
  by (auto simp: filter_id_conv)

lemma length_concat_map_map:
  "length (concat (map (\<lambda>c. map (g c) ns) cs)) = length cs * length ns"
  by (induction cs) simp_all

lemma extract_wavelet_features_length:
  assumes "dec_len K w = Some flen" and "2 \<le> flen" and "data \<noteq> []" and "0 \<le> level"
  shows "map_sum id length (extract_wavelet_features K data spec w level)
           = Inr ((nat level + 1) * length (filter (\<lambda>f. f \<in> set wavelet_names)
                                             (features_or_default wavelet_names spec)))"
  using extract_wavelet_features_ok [OF assms, of spec]
  by (simp add: length_concat_map_map coarse_to_fine_length)

lemma sample_dec_len: "dec_len sample_kernels ''coif6'' = Some 36"
  by (simp add: sample_kernels_def)

lemma stft_computed_unknown:
  assumes "\<forall>f \<in> set fte. f \<notin> stft_names"
  shows "stft_computed_features K S fte = Inr []"
  using assms
  by (induction fte) (simp_all add: stft_computed_features_def stft_lookup_unknown)

lemma stft_outcomes:
  "(data = [] \<and> scipy_signal_stft K data = Inr Empty1D)
   \<or> (0 < length data \<and> length data \<le> 128 \<and> scipy_signal_stft K data = Inl NoverlapNotBelowNperseg)
   \<or> (128 < length data \<and> (\<exists>M. scipy_signal_stft K data = Inr (Matrix M)))"
  by (auto simp: scipy_signal_stft_def Let_def stft_nperseg_def)

lemma mag_spectrogram_shape:
  assumes "128 < length data"
  shows "\<exists>M. scipy_signal_stft K data = Inr (Matrix M) \<and> mag_spectrogram K data = Matrix M
           \<and> M \<noteq> [] \<and> length M = stft_bins (length data)
           \<and> n_frames M = stft_frames (length data)"
proof -
  from stft_shape [OF assms, of K] obtain M
    where M: "scipy_signal_stft K data = Inr (Matrix M)" "length M = stft_bins (length data)"
      "n_frames M = stft_frames (length data)" by blast
  from M(2) have "M \<noteq> []" by (auto simp: stft_bins_def)
  with M show ?thesis by (simp add: mag_spectrogram_def)
qed

lemma extract_stft_features_ok:
  assumes "128 < length data"
  shows "extract_stft_features K data spec
           = np_concatenate (map (stft_segment K (mag_spectrogram K data))
               (filter (\<lambda>f. f \<in> stft_names) (features_or_default stft_default_features spec)))"
proof -
  from mag_spectrogram_shape [OF assms, of K] obtain M
    where M: "scipy_signal_stft K data = Inr (Matrix M)" "mag_spectrogram K data = Matrix M"
      "M \<noteq> []" by blast
  show ?thesis
    by (simp add: extract_stft_features_def M stft_computed_filter [OF M(3)])
qed

lemma stft_segment_length:
  assumes "128 < length data" and "feat \<in> stft_names"
  shows "length (stft_segment K (mag_spectrogram K data) feat)
           = (if feat = ''mean'' \<or> feat = ''std'' then stft_bins (length data)
              else stft_frames (length data))"
proof -
  from mag_spectrogram_shape [OF assms(1), of K] obtain M
    where M: "mag_spectrogram K data = Matrix M" "M \<noteq> []"
      "length M = stft_bins (length data)" "n_frames M = stft_frames (length data)" by blast
  from stft_lookup_known [OF M(2) assms(2), of K] M show ?thesis by simp
qed

lemma length_concat_two_kinds:
  assumes "\<forall>x \<in> set xs. length (seg x) = (if P x then b else t)"
  shows "length (concat (map seg xs))
           = length (filter P xs) * b + length (filter (\<lambda>x. \<not> P x) xs) * t"
  using assms by (induction xs) simp_all

lemma extract_stft_features_length:
  assumes "128 < length data" and "fs \<noteq> []" and "set fs \<subseteq> stft_names"
  shows "map_sum id length (extract_stft_features K data (Some fs))
           = Inr (length (filter (\<lambda>f. f = ''mean'' \<or> f = ''std'') fs) * stft_bins (length data)
                + length (filter (\<lambda>f. \<not> (f = ''mean'' \<or> f = ''std'')) fs)
                    * stft_frames (length data))"
proof -
  have "\<forall>f \<in> set fs. length (stft_segment K (mag_spectrogram K data) f)
          = (if f = ''mean'' \<or> f = ''std'' then stft_bins (length data)
             else stft_frames (length data))"
    using assms(3) stft_segment_length [OF assms(1)] by blast
  from length_concat_two_kinds [OF this]
  show ?thesis
    using assms(2,3) extract_stft_features_ok [OF assms(1), of K "Some fs"]
    by (simp add: features_or_default_Some filter_known np_concatenate_def)
qed

lemma stft_frames_256: "stft_frames 256 = 3"
  by (simp add: stft_frames_def stft_nperseg_def Let_def)

lemma stft_frames_1024: "stft_frames 1024 = 9"
  by (simp add: stft_frames_def stft_nperseg_def Let_def)

lemma stft_frames_300: "stft_frames 300 = 4"
  by (simp add: stft_frames_def stft_nperseg_def Let_def)




lemma series_apply_rows:
  "series_apply f cells = Inr ys \<Longrightarrow>
     length ys = length cells \<and> (\<forall>i < length cells. f (cells ! i) = Inr (ys ! i))"
proof (induction cells arbitrary: ys)
  case Nil
  then show ?case by (simp add: series_apply_def)
next
  case (Cons c cells)
  from Cons.prems obtain y ys' where y: "f c = Inr y" "series_apply f cells = Inr ys'" "ys = y # ys'"
    by (auto simp: series_apply_def split: sum.splits)
  from Cons.IH [OF y(2)] y(1,3) show ?case
    by (auto simp: nth_Cons split: nat.splits)
qed

lemma apply_Cons_absent:
  "col \<notin> set (columns df) \<Longrightarrow>
     apply_feature_extraction K df (col # cols) = apply_feature_extraction K df cols"
  by simp



lemma not_derived:
  assumes "\<forall>c \<in> set cols. ''stft_'' @ c \<notin> set cols \<and> ''dwt_'' @ c \<notin> set cols"
  shows "c \<in> set cols \<Longrightarrow> c \<notin> derived_names cols"
  using assms by (auto simp: derived_names_def)





lemma apply_all_absent:
  "set cols \<inter> set (columns df) = {} \<Longrightarrow> apply_feature_extraction K df cols = (df, None)"
  by (induction cols) simp_all



lemma wavelet_stat_mean: "wavelet_stat K ''mean'' c = np_mean K c"
  by (simp add: wavelet_stat_def wavelet_feature_map_def)

text \<open>
  Where at least one supported name remains, an unsupported entry changes nothing: both
  extractors return what they return for the list without it. For the wavelet extractor
  the list \<open>["mean", "bogus_stat"]\<close> gives the per-level means, as \<open>["mean"]\<close> does.
\<close>

lemma unsupported_entries_dropped:
  "(128 < length data \<and> filter (\<lambda>f. f \<in> stft_names) fs \<noteq> [] \<longrightarrow>
      extract_stft_features K data (Some fs)
        = extract_stft_features K data (Some (filter (\<lambda>f. f \<in> stft_names) fs)))
   \<and> (data \<noteq> [] \<and> dec_len K w = Some flen \<and> 2 \<le> flen \<and> 0 \<le> level
        \<and> filter (\<lambda>f. f \<in> set wavelet_names) fs \<noteq> [] \<longrightarrow>
      extract_wavelet_features K data (Some fs) w level
        = extract_wavelet_features K data (Some (filter (\<lambda>f. f \<in> set wavelet_names) fs)) w level)
   \<and> (data \<noteq> [] \<and> dec_len K w = Some flen \<and> 2 \<le> flen \<and> 0 \<le> level \<longrightarrow>
      extract_wavelet_features K data (Some [''mean'', ''bogus_stat'']) w level
        = Inr (map (np_mean K) (coarse_to_fine K w data (nat level)))
      \<and> extract_wavelet_features K data (Some [''mean'']) w level
        = Inr (map (np_mean K) (coarse_to_fine K w data (nat level))))"
proof -
  have ne: "gs \<noteq> []" if "filter P gs \<noteq> []" for P and gs :: "string list"
    using that by auto
  have a: "extract_stft_features K data (Some fs)
        = extract_stft_features K data (Some (filter (\<lambda>f. f \<in> stft_names) fs))"
    if "128 < length data" and "filter (\<lambda>f. f \<in> stft_names) fs \<noteq> []"
    using that(2) ne [OF that(2)]
      extract_stft_features_ok [OF that(1), of K "Some fs"]
      extract_stft_features_ok [OF that(1), of K "Some (filter (\<lambda>f. f \<in> stft_names) fs)"]
    by (simp add: features_or_default_Some)
  have b: "extract_wavelet_features K data (Some fs) w level
        = extract_wavelet_features K data (Some (filter (\<lambda>f. f \<in> set wavelet_names) fs)) w level"
    if "data \<noteq> []" "dec_len K w = Some flen" "2 \<le> flen" "0 \<le> level"
      and "filter (\<lambda>f. f \<in> set wavelet_names) fs \<noteq> []"
    using that(5) ne [OF that(5)]
      extract_wavelet_features_ok [OF that(2,3,1,4), of "Some fs"]
      extract_wavelet_features_ok [OF that(2,3,1,4),
        of "Some (filter (\<lambda>f. f \<in> set wavelet_names) fs)"]
    by (simp add: features_or_default_Some)
  have c: "extract_wavelet_features K data (Some [''mean'', ''bogus_stat'']) w level
        = Inr (map (np_mean K) (coarse_to_fine K w data (nat level)))
      \<and> extract_wavelet_features K data (Some [''mean'']) w level
        = Inr (map (np_mean K) (coarse_to_fine K w data (nat level)))"
    if "data \<noteq> []" "dec_len K w = Some flen" "2 \<le> flen" "0 \<le> level"
  proof -
    have "concat (map (\<lambda>c. [np_mean K c]) cs) = map (np_mean K) cs" for cs
      by (induction cs) simp_all
    then show ?thesis
      using extract_wavelet_features_ok [OF that(2,3,1,4), of "Some [''mean'', ''bogus_stat'']"]
        extract_wavelet_features_ok [OF that(2,3,1,4), of "Some [''mean'']"]
      by (simp add: features_or_default_Some wavelet_names_def wavelet_stat_mean)
  qed
  from a b c show ?thesis by blast
qed

text \<open>
  The default list, signals too short for the transform, and lists without a supported
  name.
\<close>

lemma extract_stft_default_length:
  assumes "128 < length data" and "spec = None \<or> spec = Some []"
  shows "map_sum id length (extract_stft_features K data spec)
           = Inr (2 * stft_bins (length data) + 7 * stft_frames (length data))"
proof -
  have sub: "set stft_default_features \<subseteq> stft_names"
    by (simp add: stft_names_def)
  have ne: "stft_default_features \<noteq> []"
    by (simp add: stft_default_features_def)
  have "\<forall>f \<in> set stft_default_features.
          length (stft_segment K (mag_spectrogram K data) f)
            = (if f = ''mean'' \<or> f = ''std'' then stft_bins (length data)
               else stft_frames (length data))"
    using sub stft_segment_length [OF assms(1)] by blast
  from length_concat_two_kinds [OF this]
  have "length (concat (map (stft_segment K (mag_spectrogram K data)) stft_default_features))
          = 2 * stft_bins (length data) + 7 * stft_frames (length data)"
    by (simp add: stft_default_features_def)
  then show ?thesis
    using assms(2) ne extract_stft_features_ok [OF assms(1), of K spec]
    by (auto simp: features_or_default_empty filter_known [OF sub] np_concatenate_def)
qed

lemma stft_lookup_empty1d:
  assumes "feat \<in> stft_names"
  shows "\<exists>e. map_of (stft_feature_map K Empty1D) feat = Some (Inl e)"
  using assms
  by (auto simp: stft_names_def stft_default_features_def stft_feature_map_def
        reduce_axis1_def librosa_feature_def first_row_def)

lemma stft_computed_empty1d:
  assumes "fte \<noteq> []" and "set fte \<subseteq> stft_names"
  shows "isl (stft_computed_features K Empty1D fte)"
proof -
  from assms(1) obtain f fs where fte: "fte = f # fs" by (cases fte) auto
  with assms(2) have "f \<in> stft_names" by simp
  from stft_lookup_empty1d [OF this, of K] obtain e
    where "map_of (stft_feature_map K Empty1D) f = Some (Inl e)" by blast
  with fte show ?thesis by (simp add: stft_computed_features_def)
qed

lemma extract_stft_short_raises:
  assumes "length data \<le> 128"
    and "set (features_or_default stft_default_features spec) \<subseteq> stft_names"
  shows "isl (extract_stft_features K data spec)"
proof -
  have ne: "features_or_default stft_default_features spec \<noteq> []"
    by (auto simp: features_or_default_def stft_default_features_def
          split: option.splits list.splits)
  from stft_outcomes [of data K] assms(1)
  consider "scipy_signal_stft K data = Inr Empty1D"
    | "scipy_signal_stft K data = Inl NoverlapNotBelowNperseg" by auto
  then show ?thesis
  proof cases
    case 1
    from stft_computed_empty1d [OF ne assms(2), of K] 1 show ?thesis
      by (auto simp: extract_stft_features_def isl_def)
  next
    case 2
    then show ?thesis by (simp add: extract_stft_features_def)
  qed
qed

lemma wavedec_empty_raises:
  assumes "dec_len K w = Some flen" and "2 \<le> flen" and "0 < level"
  shows "pywt_wavedec K [] w level = Inl EmptyTransformInput"
proof -
  from assms(3) obtain n where "nat level = Suc n"
    by (cases "nat level") auto
  with assms show ?thesis
    by (simp add: pywt_wavedec_def pywt_dwt_def)
qed

lemma features_loop_unknown:
  assumes "\<forall>f \<in> set fte. f \<notin> set wavelet_names"
  shows "features_loop K fte coeffs acc = Inr acc"
proof -
  have "List.map_filter
          (\<lambda>feat. map_option (\<lambda>f. f c) (map_of (wavelet_feature_map K) feat)) fte = []" for c
    using assms by (induction fte) (simp_all add: wavelet_lookup_unknown)
  then have "level_features K fte c = Inr []" for c
    by (simp add: level_features_def)
  then show ?thesis
    by (induction coeffs arbitrary: acc) simp_all
qed








































section \<open>C1: length of the STFT vector\<close>

text \<open>
  Claim C1 says the STFT vector has \<open>len(spec)\<close> times a fixed bin count entries, so that
  two signals of different lengths give vectors of one length. The subscript \<open>[0]\<close> on
  a librosa feature selects a row with one entry per time frame, and the number of
  frames depends on the length of the signal: for the one-name list
  \<open>["spectral_centroid"]\<close> a signal of 256 samples gives 3 entries and one of 1024
  samples gives 9.
\<close>

theorem stft_length_varies_counterexample:
  "map_sum id length
     (extract_stft_features sample_kernels (replicate 256 0) (Some [''spectral_centroid'']))
     = Inr 3
   \<and> map_sum id length
     (extract_stft_features sample_kernels (replicate 1024 0) (Some [''spectral_centroid'']))
     = Inr 9"
  using extract_stft_features_length [of "replicate 256 0" "[''spectral_centroid'']" sample_kernels]
    extract_stft_features_length [of "replicate 1024 0" "[''spectral_centroid'']" sample_kernels]
  by (simp add: stft_names_def stft_default_features_def stft_frames_256 stft_frames_1024)

text \<open>
  C1, as the code has it, for every list \<open>fs\<close> of supported names. A signal of \<open>n > 128\<close>
  samples gives a vector with \<open>stft_bins n\<close> entries for each \<open>mean\<close> and \<open>std\<close> of the
  list and \<open>stft_frames n\<close> entries for each other name; for the empty or absent list
  the nine default names are used, which gives \<open>2 * stft_bins n + 7 * stft_frames n\<close>
  entries. For a non-empty list of \<open>mean\<close> and \<open>std\<close> only, and at least 256 samples,
  the length is \<open>len(spec) * 129\<close> whatever the length of the signal. A signal of at
  most 128 samples makes the call raise.
\<close>

theorem stft_vector_length:
  assumes "set fs \<subseteq> stft_names"
  shows "(128 < length data \<and> fs \<noteq> [] \<longrightarrow>
            map_sum id length (extract_stft_features K data (Some fs))
              = Inr (length (filter (\<lambda>f. f = ''mean'' \<or> f = ''std'') fs) * stft_bins (length data)
                   + length (filter (\<lambda>f. \<not> (f = ''mean'' \<or> f = ''std'')) fs)
                       * stft_frames (length data)))
       \<and> (128 < length data \<and> (spec = None \<or> spec = Some []) \<longrightarrow>
            map_sum id length (extract_stft_features K data spec)
              = Inr (2 * stft_bins (length data) + 7 * stft_frames (length data)))
       \<and> (256 \<le> length data \<and> fs \<noteq> [] \<and> set fs \<subseteq> {''mean'', ''std''} \<longrightarrow>
            map_sum id length (extract_stft_features K data (Some fs)) = Inr (length fs * 129))
       \<and> (length data \<le> 128 \<longrightarrow>
            isl (extract_stft_features K data (Some fs))
          \<and> isl (extract_stft_features K data None))"
proof -
  have a: "map_sum id length (extract_stft_features K data (Some fs))
              = Inr (length (filter (\<lambda>f. f = ''mean'' \<or> f = ''std'') fs) * stft_bins (length data)
                   + length (filter (\<lambda>f. \<not> (f = ''mean'' \<or> f = ''std'')) fs)
                       * stft_frames (length data))"
    if "128 < length data" and "fs \<noteq> []"
    using extract_stft_features_length [OF that assms] .
  have b: "map_sum id length (extract_stft_features K data spec)
              = Inr (2 * stft_bins (length data) + 7 * stft_frames (length data))"
    if "128 < length data" and "spec = None \<or> spec = Some []"
    using extract_stft_default_length [OF that] .
  have c: "map_sum id length (extract_stft_features K data (Some fs)) = Inr (length fs * 129)"
    if "256 \<le> length data" and "fs \<noteq> []" and "set fs \<subseteq> {''mean'', ''std''}"
  proof -
    from that(3) have "filter (\<lambda>f. f = ''mean'' \<or> f = ''std'') fs = fs"
      by (auto simp: filter_id_conv)
    moreover from that(3) have "filter (\<lambda>f. \<not> (f = ''mean'' \<or> f = ''std'')) fs = []"
      by (auto simp: filter_empty_conv)
    moreover from that(1) have "128 < length data" by simp
    ultimately show ?thesis
      using a that(1,2) by (simp add: stft_bins_long)
  qed
  have sub: "set (features_or_default stft_default_features sp) \<subseteq> stft_names"
    if "sp = None \<or> sp = Some fs" for sp
    using that assms
    by (auto simp: features_or_default_def stft_names_def split: list.splits)
  have d: "isl (extract_stft_features K data (Some fs)) \<and> isl (extract_stft_features K data None)"
    if "length data \<le> 128"
    using extract_stft_short_raises [OF that sub, of "Some fs" K]
      extract_stft_short_raises [OF that sub, of None K] by simp
  from a b c d show ?thesis by blast
qed

text \<open>
  At 300 samples (four frames): \<open>["mean", "mfcc", "std"]\<close> gives \<open>2 * 129 + 4\<close> entries,
  the absent list \<open>2 * 129 + 7 * 4\<close>, \<open>["std", "mean", "std"]\<close> gives \<open>3 * 129\<close>; at
  100 samples the call raises.
\<close>

theorem stft_vector_length_witness:
  "set [''mean'', ''mfcc'', ''std''] \<subseteq> stft_names
   \<and> 128 < length (replicate 300 (0::int))
   \<and> map_sum id length
       (extract_stft_features sample_kernels (replicate 300 0) (Some [''mean'', ''mfcc'', ''std'']))
       = Inr (2 * 129 + 1 * 4)
   \<and> map_sum id length (extract_stft_features sample_kernels (replicate 300 0) None)
       = Inr (2 * 129 + 7 * 4)
   \<and> map_sum id length
       (extract_stft_features sample_kernels (replicate 300 0) (Some [''std'', ''mean'', ''std'']))
       = Inr (3 * 129)
   \<and> isl (extract_stft_features sample_kernels (replicate 100 0) (Some [''mean'', ''mfcc'', ''std'']))"
  using stft_vector_length [of "[''mean'', ''mfcc'', ''std'']" "replicate 300 0" sample_kernels None]
    stft_vector_length [of "[''std'', ''mean'', ''std'']" "replicate 300 0" sample_kernels None]
    stft_vector_length [of "[''mean'', ''mfcc'', ''std'']" "replicate 100 0" sample_kernels None]
  by (simp add: stft_names_def stft_default_features_def stft_frames_300 stft_bins_long)

section \<open>C2: shape and order of the wavelet vector\<close>

text \<open>
  Claim C2 gives the wavelet vector \<open>(L + 1) * len(spec)\<close> entries for every list of
  supported names. The empty list is replaced by the nine default names (line 173), so
  at level 4 it gives 45 entries, not 0. The signal of 560 samples is long enough for
  \<open>coif6\<close> at level 4.
\<close>

theorem wavelet_length_empty_spec_counterexample:
  "map_sum id length
     (extract_wavelet_features sample_kernels (replicate 560 1) (Some []) ''coif6'' 4) = Inr 45
   \<and> (45 :: nat) \<noteq> (4 + 1) * length ([] :: string list)"
  using extract_wavelet_features_length [of sample_kernels "''coif6''" 36 "replicate 560 1" 4 "Some []"]
  by (simp add: sample_dec_len features_or_default_empty wavelet_names_def)

text \<open>
  C2, as the code has it. For a non-empty signal, a wavelet the library knows and a
  level \<open>L \<ge> 0\<close>, \<open>wavedec\<close> returns \<open>L + 1\<close> arrays, the coarsest approximation first
  and then the details from the coarsest to the finest. For a non-empty list of supported
  names the vector is the concatenation, array by array, of the statistics in the order
  of the list, \<open>(L + 1) * len(spec)\<close> entries in all. For an absent or empty list the
  nine default names are used and the vector has \<open>(L + 1) * 9\<close> entries.
\<close>

theorem wavelet_vector_shape:
  assumes "dec_len K wavelet = Some flen" and "2 \<le> flen" and "data \<noteq> []" and "0 \<le> level"
  shows "pywt_wavedec K data wavelet level = Inr (coarse_to_fine K wavelet data (nat level))
     \<and> length (coarse_to_fine K wavelet data (nat level)) = nat level + 1
     \<and> (fs \<noteq> [] \<and> set fs \<subseteq> set wavelet_names \<longrightarrow>
          extract_wavelet_features K data (Some fs) wavelet level
            = Inr (concat (map (\<lambda>c. map (\<lambda>feat. wavelet_stat K feat c) fs)
                               (coarse_to_fine K wavelet data (nat level))))
          \<and> length (concat (map (\<lambda>c. map (\<lambda>feat. wavelet_stat K feat c) fs)
                               (coarse_to_fine K wavelet data (nat level))))
              = (nat level + 1) * length fs)
     \<and> (spec = None \<or> spec = Some [] \<longrightarrow>
          extract_wavelet_features K data spec wavelet level
            = Inr (concat (map (\<lambda>c. map (\<lambda>feat. wavelet_stat K feat c) wavelet_names)
                               (coarse_to_fine K wavelet data (nat level))))
          \<and> length (concat (map (\<lambda>c. map (\<lambda>feat. wavelet_stat K feat c) wavelet_names)
                               (coarse_to_fine K wavelet data (nat level))))
              = (nat level + 1) * 9)"
proof -
  let ?cs = "coarse_to_fine K wavelet data (nat level)"
  have len: "length (concat (map (\<lambda>c. map (\<lambda>feat. wavelet_stat K feat c) ns) ?cs))
               = (nat level + 1) * length ns" for ns
    using length_concat_const [of ?cs "\<lambda>c. map (\<lambda>feat. wavelet_stat K feat c) ns" "length ns"]
    by (simp add: coarse_to_fine_length)
  have a: "pywt_wavedec K data wavelet level = Inr ?cs"
    by (rule pywt_wavedec_ok [OF assms])
  have b: "length ?cs = nat level + 1"
    by (simp add: coarse_to_fine_length)
  have c: "extract_wavelet_features K data (Some fs) wavelet level
             = Inr (concat (map (\<lambda>c. map (\<lambda>feat. wavelet_stat K feat c) fs) ?cs))"
    if "fs \<noteq> []" and "set fs \<subseteq> set wavelet_names"
    using that extract_wavelet_features_ok [OF assms, of "Some fs"]
    by (simp add: features_or_default_Some filter_known)
  have d: "extract_wavelet_features K data spec wavelet level
             = Inr (concat (map (\<lambda>c. map (\<lambda>feat. wavelet_stat K feat c) wavelet_names) ?cs))"
    if "spec = None \<or> spec = Some []"
    using that extract_wavelet_features_ok [OF assms, of spec]
    by (auto simp: features_or_default_empty filter_known)
  have nine: "length wavelet_names = 9" by (simp add: wavelet_names_def)
  from a b c d len [of fs] len [of wavelet_names] nine show ?thesis by simp
qed

text \<open>
  At level 2 with \<open>["max", "mean"]\<close> on a three-sample signal: six entries.
\<close>

theorem wavelet_vector_shape_witness:
  "dec_len sample_kernels ''coif6'' = Some 36 \<and> [1, 2, 3] \<noteq> ([] :: int list)
   \<and> set [''max'', ''mean''] \<subseteq> set wavelet_names
   \<and> map_sum id length
        (extract_wavelet_features sample_kernels [1, 2, 3] (Some [''max'', ''mean'']) ''coif6'' 2)
       = Inr 6"
  using wavelet_vector_shape [of sample_kernels "''coif6''" 36 "[1, 2, 3]" 2 "[''max'', ''mean'']"]
  by (simp add: sample_dec_len wavelet_names_def)

section \<open>C3: signals too short for the decomposition\<close>

text \<open>
  Claim C3 says a signal too short for the filter at the chosen level fails with an
  explicit error. The function has no length check, and \<open>wavedec\<close> only warns when the
  level exceeds \<open>dwt_max_level\<close>: three samples under \<open>coif6\<close> (36 taps) at level 4
  give a vector of 45 entries.
\<close>

theorem wavelet_short_signal_counterexample:
  "map_sum id length (extract_wavelet_features sample_kernels [1, 2, 3] None ''coif6'' 4) = Inr 45"
  using extract_wavelet_features_length [of sample_kernels "''coif6''" 36 "[1, 2, 3]" 4 None]
  by (simp add: sample_dec_len features_or_default_empty wavelet_names_def)

text \<open>
  C3, as the code has it. \<open>extract_wavelet_features\<close> passes on whatever \<open>wavedec\<close>
  raises and checks nothing itself: every non-empty signal, however short, gives a
  vector of \<open>level + 1\<close> times the number of supported names in the effective list.
\<close>

theorem wavelet_no_length_check:
  assumes "dec_len K wavelet = Some flen" and "2 \<le> flen" and "0 \<le> level"
  shows "(data \<noteq> [] \<longrightarrow>
            map_sum id length (extract_wavelet_features K data spec wavelet level)
              = Inr ((nat level + 1) * length (filter (\<lambda>f. f \<in> set wavelet_names)
                                                (features_or_default wavelet_names spec))))
       \<and> (\<forall>e. pywt_wavedec K data wavelet level = Inl e \<longrightarrow>
                extract_wavelet_features K data spec wavelet level = Inl e)"
proof -
  have "map_sum id length (extract_wavelet_features K data spec wavelet level)
          = Inr ((nat level + 1) * length (filter (\<lambda>f. f \<in> set wavelet_names)
                                            (features_or_default wavelet_names spec)))"
    if "data \<noteq> []"
    using extract_wavelet_features_length [OF assms(1,2) that assms(3)] .
  moreover have "extract_wavelet_features K data spec wavelet level = Inl e"
    if "pywt_wavedec K data wavelet level = Inl e" for e
    using that by (simp add: extract_wavelet_features_def)
  ultimately show ?thesis by blast
qed

text \<open>
  One sample at level 1 gives two entries for \<open>["mean", "bogus_stat"]\<close>; the empty
  signal makes \<open>wavedec\<close> raise, and the extractor raises the same.
\<close>

theorem wavelet_no_length_check_witness:
  "dec_len sample_kernels ''coif6'' = Some 36 \<and> [7] \<noteq> ([] :: int list)
   \<and> map_sum id length
        (extract_wavelet_features sample_kernels [7] (Some [''mean'', ''bogus_stat'']) ''coif6'' 1)
       = Inr 2
   \<and> pywt_wavedec sample_kernels [] ''coif6'' 1 = Inl EmptyTransformInput
   \<and> extract_wavelet_features sample_kernels [] None ''coif6'' 1 = Inl EmptyTransformInput"
proof -
  have w: "pywt_wavedec sample_kernels [] ''coif6'' 1 = Inl EmptyTransformInput"
    by (simp add: pywt_wavedec_def pywt_dwt_def sample_dec_len)
  from wavelet_no_length_check [of sample_kernels "''coif6''" 36 1 "[7]"
      "Some [''mean'', ''bogus_stat'']"]
  have "map_sum id length
        (extract_wavelet_features sample_kernels [7] (Some [''mean'', ''bogus_stat'']) ''coif6'' 1)
       = Inr 2"
    by (simp add: sample_dec_len features_or_default_Some wavelet_names_def)
  moreover from wavelet_no_length_check [of sample_kernels "''coif6''" 36 1 "[]" None] w
  have "extract_wavelet_features sample_kernels [] None ''coif6'' 1 = Inl EmptyTransformInput"
    by (simp add: sample_dec_len)
  ultimately show ?thesis using w by (simp add: sample_dec_len)
qed

section \<open>C4: unsupported names\<close>

text \<open>
  Claim C4 says an unsupported name is dropped without an error, for every list of
  names. \<open>extract_stft_features\<close> drops the name (line 121) and then hands the list of
  computed features to \<open>np.concatenate\<close> (line 122), which raises on the empty list:
  with \<open>["bogus_stat"]\<close> and a signal of 300 samples the call ends in that exception.
  The wavelet extractor builds its vector with \<open>np.array\<close> and returns the empty vector
  there; \<open>unsupported_entries_dropped\<close> above is the part of the claim that holds.
\<close>

theorem stft_unknown_only_raises:
  "extract_stft_features K (replicate 300 x) (Some [''bogus_stat'']) = Inl ConcatenateEmptyList"
proof -
  obtain M where "scipy_signal_stft K (replicate 300 x) = Inr (Matrix M)"
    using stft_outcomes [of "replicate 300 x" K] by auto
  moreover have "stft_computed_features K (Matrix M) [''bogus_stat''] = Inr []"
    by (rule stft_computed_unknown) (simp add: stft_names_def stft_default_features_def)
  ultimately show ?thesis
    by (simp add: extract_stft_features_def features_or_default_def np_concatenate_def)
qed

section \<open>C5: the columns apply_feature_extraction writes\<close>




section \<open>C6: the epsilon guard\<close>




section \<open>C7: the order of the segments follows the order of the names\<close>

text \<open>
  Claim C7. Let \<open>fs\<close> and \<open>fs'\<close> be lists of supported names that are permutations of
  each other. Both STFT vectors are the concatenation of the segments
  \<open>stft_segment K S name\<close>, taken in the order of the names of the list; the segment of
  a name depends on the signal and the name only, so both vectors are built from the
  same segments. Likewise for the wavelet vector within each coefficient array, with
  \<open>wavelet_stat K name c\<close>. The list that is iterated is the list given, except that the
  empty list stands for the default names (last conjunct).
\<close>

theorem spec_order_tracks_segments:
  assumes "mset fs = mset fs'"
  shows "(128 < length data \<and> set fs \<subseteq> stft_names \<longrightarrow>
            extract_stft_features K data (Some fs)
              = Inr (concat (map (stft_segment K (mag_spectrogram K data))
                               (features_or_default stft_default_features (Some fs))))
          \<and> extract_stft_features K data (Some fs')
              = Inr (concat (map (stft_segment K (mag_spectrogram K data))
                               (features_or_default stft_default_features (Some fs'))))
          \<and> mset (map (stft_segment K (mag_spectrogram K data))
                       (features_or_default stft_default_features (Some fs)))
              = mset (map (stft_segment K (mag_spectrogram K data))
                       (features_or_default stft_default_features (Some fs'))))
       \<and> (data \<noteq> [] \<and> dec_len K wavelet = Some flen \<and> 2 \<le> flen \<and> 0 \<le> level
            \<and> set fs \<subseteq> set wavelet_names \<longrightarrow>
            extract_wavelet_features K data (Some fs) wavelet level
              = Inr (concat (map (\<lambda>c. map (\<lambda>feat. wavelet_stat K feat c)
                                          (features_or_default wavelet_names (Some fs)))
                               (coarse_to_fine K wavelet data (nat level))))
          \<and> extract_wavelet_features K data (Some fs') wavelet level
              = Inr (concat (map (\<lambda>c. map (\<lambda>feat. wavelet_stat K feat c)
                                          (features_or_default wavelet_names (Some fs')))
                               (coarse_to_fine K wavelet data (nat level))))
          \<and> (\<forall>c. mset (map (\<lambda>feat. wavelet_stat K feat c)
                             (features_or_default wavelet_names (Some fs)))
                  = mset (map (\<lambda>feat. wavelet_stat K feat c)
                             (features_or_default wavelet_names (Some fs')))))
       \<and> (fs \<noteq> [] \<longrightarrow> features_or_default d (Some fs) = fs
            \<and> features_or_default d (Some fs') = fs')"
proof -
  from assms have sets: "set fs = set fs'" by (rule mset_eq_setD)
  from assms have empty: "fs = [] \<longleftrightarrow> fs' = []"
    by (metis mset_zero_iff)
  have eff: "mset (features_or_default d (Some fs)) = mset (features_or_default d (Some fs'))"
    for d
  proof (cases "fs = []")
    case True
    with empty show ?thesis by (simp add: features_or_default_empty)
  next
    case False
    with empty assms show ?thesis by (simp add: features_or_default_Some)
  qed
  have sub: "set (features_or_default d (Some gs)) \<subseteq> A" if "set gs \<subseteq> A" and "set d \<subseteq> A"
    for gs d and A :: "string set"
    using that by (cases gs) (simp_all add: features_or_default_def)
  have stft: "extract_stft_features K data (Some gs)
                = Inr (concat (map (stft_segment K (mag_spectrogram K data))
                                 (features_or_default stft_default_features (Some gs))))"
    if "128 < length data" and "set gs \<subseteq> stft_names" for gs
  proof -
    have "set (features_or_default stft_default_features (Some gs)) \<subseteq> stft_names"
      using that(2) by (intro sub) (simp_all add: stft_names_def)
    moreover have "features_or_default stft_default_features (Some gs) \<noteq> []"
      by (cases gs) (simp_all add: features_or_default_def stft_default_features_def)
    ultimately show ?thesis
      using extract_stft_features_ok [OF that(1), of K "Some gs"]
      by (simp add: filter_known np_concatenate_def)
  qed
  have wav: "extract_wavelet_features K data (Some gs) wavelet level
               = Inr (concat (map (\<lambda>c. map (\<lambda>feat. wavelet_stat K feat c)
                                           (features_or_default wavelet_names (Some gs)))
                                (coarse_to_fine K wavelet data (nat level))))"
    if "data \<noteq> []" and "dec_len K wavelet = Some flen" and "2 \<le> flen" and "0 \<le> level"
      and "set gs \<subseteq> set wavelet_names" for gs
  proof -
    have "set (features_or_default wavelet_names (Some gs)) \<subseteq> set wavelet_names"
      using that(5) by (intro sub) simp_all
    then show ?thesis
      using extract_wavelet_features_ok [OF that(2,3,1,4), of "Some gs"]
      by (simp add: filter_known)
  qed
  have A: "128 < length data \<and> set fs \<subseteq> stft_names \<longrightarrow>
            extract_stft_features K data (Some fs)
              = Inr (concat (map (stft_segment K (mag_spectrogram K data))
                               (features_or_default stft_default_features (Some fs))))
          \<and> extract_stft_features K data (Some fs')
              = Inr (concat (map (stft_segment K (mag_spectrogram K data))
                               (features_or_default stft_default_features (Some fs'))))
          \<and> mset (map (stft_segment K (mag_spectrogram K data))
                       (features_or_default stft_default_features (Some fs)))
              = mset (map (stft_segment K (mag_spectrogram K data))
                       (features_or_default stft_default_features (Some fs')))"
    using stft [of fs] stft [of fs'] sets eff [of stft_default_features] by simp
  have B: "data \<noteq> [] \<and> dec_len K wavelet = Some flen \<and> 2 \<le> flen \<and> 0 \<le> level
            \<and> set fs \<subseteq> set wavelet_names \<longrightarrow>
            extract_wavelet_features K data (Some fs) wavelet level
              = Inr (concat (map (\<lambda>c. map (\<lambda>feat. wavelet_stat K feat c)
                                          (features_or_default wavelet_names (Some fs)))
                               (coarse_to_fine K wavelet data (nat level))))
          \<and> extract_wavelet_features K data (Some fs') wavelet level
              = Inr (concat (map (\<lambda>c. map (\<lambda>feat. wavelet_stat K feat c)
                                          (features_or_default wavelet_names (Some fs')))
                               (coarse_to_fine K wavelet data (nat level))))
          \<and> (\<forall>c. mset (map (\<lambda>feat. wavelet_stat K feat c)
                             (features_or_default wavelet_names (Some fs)))
                  = mset (map (\<lambda>feat. wavelet_stat K feat c)
                             (features_or_default wavelet_names (Some fs'))))"
    using wav [of fs] wav [of fs'] sets eff [of wavelet_names] by simp
  have C: "fs \<noteq> [] \<longrightarrow> features_or_default d (Some fs) = fs
            \<and> features_or_default d (Some fs') = fs'"
    using empty by (simp add: features_or_default_Some)
  from A B C show ?thesis by blast
qed

text \<open>
  \<open>["mean", "std"]\<close> against \<open>["std", "mean"]\<close> on 300 samples.
\<close>

theorem spec_order_tracks_segments_witness:
  "mset [''mean'', ''std''] = mset [''std'', ''mean'']
   \<and> extract_stft_features sample_kernels (replicate 300 0) (Some [''mean'', ''std''])
       = Inr (stft_segment sample_kernels (mag_spectrogram sample_kernels (replicate 300 0)) ''mean''
            @ stft_segment sample_kernels (mag_spectrogram sample_kernels (replicate 300 0)) ''std'')
   \<and> extract_stft_features sample_kernels (replicate 300 0) (Some [''std'', ''mean''])
       = Inr (stft_segment sample_kernels (mag_spectrogram sample_kernels (replicate 300 0)) ''std''
            @ stft_segment sample_kernels (mag_spectrogram sample_kernels (replicate 300 0)) ''mean'')
   \<and> extract_wavelet_features sample_kernels (replicate 300 0) (Some [''std'', ''mean'']) ''coif6'' 4
       = Inr (concat (map (\<lambda>c. [wavelet_stat sample_kernels ''std'' c,
                                 wavelet_stat sample_kernels ''mean'' c])
                          (coarse_to_fine sample_kernels ''coif6'' (replicate 300 0) 4)))"
proof -
  have m: "mset [''mean'', ''std''] = mset [''std'', ''mean'']"
    by (simp add: add_mset_commute)
  from spec_order_tracks_segments [OF m, of "replicate 300 0" sample_kernels "''coif6''" 36 4]
  show ?thesis
    using m
    by (simp add: stft_names_def stft_default_features_def wavelet_names_def sample_dec_len
          features_or_default_Some)
qed

section \<open>C9: a list without any supported name\<close>

text \<open>
  Claim C9 says that for every signal \<open>extract_wavelet_features\<close> returns the empty
  vector when no name of the list is supported. For the empty signal \<open>wavedec\<close> raises
  at its first transform step, before any name is looked at.
\<close>

theorem wavelet_empty_signal_counterexample:
  "extract_wavelet_features sample_kernels [] (Some [''bogus_stat'']) ''coif6'' 4
     = Inl EmptyTransformInput"
  using wavedec_empty_raises [of sample_kernels "''coif6''" 36 4]
  by (simp add: extract_wavelet_features_def sample_dec_len)

text \<open>
  C9, as the code has it, for a non-empty list \<open>fs\<close>. If \<open>fs\<close> holds no name that
  \<open>extract_stft_features\<close> supports, the call raises for every signal: the exception of
  \<open>np.concatenate\<close> on the empty list for the empty signal and for every signal of more
  than 128 samples, that of the transform for 1 to 128 samples. If \<open>fs\<close> holds no name
  that \<open>extract_wavelet_features\<close> supports, the call returns the empty vector for
  every non-empty signal (and for the empty signal at level 0); for the empty signal at
  a level above 0 it raises, the exception being that of \<open>wavedec\<close>.
\<close>

theorem unsupported_only_spec:
  assumes "fs \<noteq> []"
  shows "((\<forall>f \<in> set fs. f \<notin> stft_names) \<longrightarrow>
            extract_stft_features K data (Some fs)
              = Inl (if 0 < length data \<and> length data \<le> 128 then NoverlapNotBelowNperseg
                     else ConcatenateEmptyList))
       \<and> ((\<forall>f \<in> set fs. f \<notin> set wavelet_names) \<and> dec_len K wavelet = Some flen \<and> 2 \<le> flen
            \<and> 0 \<le> level \<longrightarrow>
            extract_wavelet_features K data (Some fs) wavelet level
              = (if data = [] \<and> 0 < level then Inl EmptyTransformInput else Inr []))"
proof -
  have stft: "extract_stft_features K data (Some fs)
              = Inl (if 0 < length data \<and> length data \<le> 128 then NoverlapNotBelowNperseg
                     else ConcatenateEmptyList)"
    if un: "\<forall>f \<in> set fs. f \<notin> stft_names"
  proof -
    have cf: "stft_computed_features K S (features_or_default stft_default_features (Some fs))
                = Inr []" for S
      using assms un by (simp add: features_or_default_Some stft_computed_unknown)
    from stft_outcomes [of data K] show ?thesis
      using cf by (auto simp: extract_stft_features_def np_concatenate_def)
  qed
  have wav: "extract_wavelet_features K data (Some fs) wavelet level
              = (if data = [] \<and> 0 < level then Inl EmptyTransformInput else Inr [])"
    if un: "\<forall>f \<in> set fs. f \<notin> set wavelet_names"
      and w: "dec_len K wavelet = Some flen" "2 \<le> flen" "0 \<le> level"
  proof (cases "data = [] \<and> 0 < level")
    case True
    with wavedec_empty_raises [OF w(1,2), of level] show ?thesis
      by (simp add: extract_wavelet_features_def)
  next
    case False
    have loop: "features_loop K (features_or_default (map fst (wavelet_feature_map K)) (Some fs))
                  coeffs [] = Inr []" for coeffs
      using assms un by (simp add: features_or_default_Some features_loop_unknown)
    show ?thesis
    proof (cases "data = []")
      case True
      with False w(3) have "level = 0" by simp
      with True w have "pywt_wavedec K data wavelet level = Inr [[]]"
        by (simp add: pywt_wavedec_def)
      with False show ?thesis
        by (simp add: extract_wavelet_features_def loop del: features_loop.simps)
    next
      case ne: False
      from pywt_wavedec_ok [OF w(1,2) ne w(3)] ne show ?thesis
        by (simp add: extract_wavelet_features_def loop)
    qed
  qed
  from stft wav show ?thesis by blast
qed

text \<open>
  \<open>["median", "bogus_stat"]\<close>, of which the wavelet extractor knows \<open>median\<close>, on 300
  and on 100 samples for the STFT; \<open>["bogus_stat"]\<close> for the wavelet extractor.
\<close>

theorem unsupported_only_spec_witness:
  "[''median'', ''bogus_stat''] \<noteq> [] \<and> ''median'' \<notin> stft_names \<and> ''bogus_stat'' \<notin> stft_names
   \<and> ''bogus_stat'' \<notin> set wavelet_names
   \<and> extract_stft_features sample_kernels (replicate 300 5) (Some [''median'', ''bogus_stat''])
       = Inl ConcatenateEmptyList
   \<and> extract_stft_features sample_kernels (replicate 100 5) (Some [''median'', ''bogus_stat''])
       = Inl NoverlapNotBelowNperseg
   \<and> extract_wavelet_features sample_kernels (replicate 300 5) (Some [''bogus_stat'']) ''coif6'' 4
       = Inr []"
  using unsupported_only_spec [of "[''median'', ''bogus_stat'']" sample_kernels "replicate 300 5"]
    unsupported_only_spec [of "[''median'', ''bogus_stat'']" sample_kernels "replicate 100 5"]
    unsupported_only_spec [of "[''bogus_stat'']" sample_kernels "replicate 300 5" "''coif6''" 36 4]
  by (simp add: sample_dec_len stft_names_def stft_default_features_def wavelet_names_def)

section \<open>C10: the two definitions of apply_feature_extraction\<close>

text \<open>
  Claim C10. The definition at line 194 and the annotated definition at line 235 that
  replaces it return the same frame and raise the same exception, for every frame and
  every list of names.
\<close>

theorem apply_feature_extraction_definitions_agree:
  "apply_feature_extraction_plain K df cols = apply_feature_extraction K df cols"
  by (induction cols arbitrary: df) (simp_all add: Let_def split: sum.splits)

text \<open>
  On a frame without rows both give the frame with the two new, empty columns.
\<close>

theorem apply_feature_extraction_definitions_agree_witness:
  "apply_feature_extraction_plain sample_kernels [(''sizes'', [])] [''sizes'', ''missing_col'']
     = ([(''sizes'', []), (''stft_sizes'', []), (''dwt_sizes'', [])], None)"
  using apply_feature_extraction_definitions_agree
          [of sample_kernels "[(''sizes'', [])]" "[''sizes'', ''missing_col'']"]
  by (simp add: columns_def get_column_def series_apply_def)

end
